theory Spec2Isabelle
  imports Main "HOL-Library.Word"
begin

section \<open>The bounded-domain dispatcher (\<open>constexpr_apply\<close>)\<close>

text \<open>
  The enumeration type \<open>E\<close> is a machine integer, \<open>'a word\<close>: a value of \<open>E\<close> is its bit
  pattern, so a negative value of a signed \<open>E\<close> is a word with the top bit set.

  The handler \<open>F\<close> is a closure type. An object of that type holds its captures (\<open>'c\<close>); the
  type fixes the move constructor and the call operator. The move constructor is given as a
  function from the source object to the pair (new object, what the source holds afterwards):
  for captures by reference and trivially copyable captures it is \<open>\<lambda>c. (c, c)\<close>, for a
  captured \<open>std::vector\<close> it is \<open>\<lambda>v. (v, [])\<close>. The call operator is \<open>const\<close>
  (the enclosing closure of \<open>apply_helper\<close> is not \<open>mutable\<close>), so a call reads the captures and
  acts on the state outside the handler (\<open>'s\<close>: what the handler reaches through references),
  and it has one of three return types: \<open>void\<close>, a plain \<open>T\<close>, or \<open>std::optional<T>\<close>.
\<close>

datatype ('c, 'e, 's, 'r) call_operator =
    ReturnsVoid "'c \<Rightarrow> 'e \<Rightarrow> 's \<Rightarrow> 's"
  | ReturnsValue "'c \<Rightarrow> 'e \<Rightarrow> 's \<Rightarrow> 'r \<times> 's"
  | ReturnsOptional "'c \<Rightarrow> 'e \<Rightarrow> 's \<Rightarrow> 'r option \<times> 's"

record ('c, 'e, 's, 'r) closure_type =
  move_ctor :: "'c \<Rightarrow> 'c \<times> 'c"
  call :: "('c, 'e, 's, 'r) call_operator"

text \<open>
  \<open>OurReturnType\<close>: \<open>bool\<close> when the handler returns \<open>void\<close>, otherwise
  \<open>std::optional<OptionalUnpacker<LambdaReturnType>>\<close>, where \<open>OptionalUnpacker\<close> maps both
  \<open>T\<close> and \<open>std::optional<T>\<close> to \<open>T\<close>.
\<close>

datatype 'r our_return = BoolResult bool | OptionalResult "'r option"

fun hasVoidReturnType :: "('c, 'e, 's, 'r) call_operator \<Rightarrow> bool" where
  "hasVoidReturnType (ReturnsVoid f) = True"
| "hasVoidReturnType (ReturnsValue f) = False"
| "hasVoidReturnType (ReturnsOptional f) = False"

text \<open>
  \<open>OurReturnType result;\<close> has no initialiser. A \<open>std::optional\<close> is default-constructed
  empty. A \<open>bool\<close> is left as it is: the variable holds what its storage held before the
  call, which is the parameter \<open>uninit\<close> of the model.
\<close>

definition default_init :: "bool \<Rightarrow> ('c, 'e, 's, 'r) call_operator \<Rightarrow> 'r our_return" where
  "default_init uninit f = (if hasVoidReturnType f then BoolResult uninit else OptionalResult None)"

text \<open>
  The body of the \<open>if\<close> in the scan: the \<open>if constexpr\<close> on the return type, giving the new
  value of \<open>result\<close> and the state after the call. Assigning a \<open>T\<close> to the optional stores a
  present value; assigning a \<open>std::optional<T>\<close> stores that optional.
\<close>

fun invoke :: "('c, 'e, 's, 'r) call_operator \<Rightarrow> 'c \<Rightarrow> 'e \<Rightarrow> 's \<Rightarrow> 'r our_return \<times> 's" where
  "invoke (ReturnsVoid f) lambda option s = (BoolResult True, f lambda option s)"
| "invoke (ReturnsValue f) lambda option s =
     (case f lambda option s of (r, s') \<Rightarrow> (OptionalResult (Some r), s'))"
| "invoke (ReturnsOptional f) lambda option s =
     (case f lambda option s of (r, s') \<Rightarrow> (OptionalResult r, s'))"

text \<open>
  One operand of the fold expression, for the index \<open>Is\<close>. The locals it works on are
  \<open>result\<close>, \<open>hasValue\<close>, the handler object \<open>_lambda\<close> that \<open>apply_helper\<close> received, and
  the outside state. The init-capture \<open>lambda = std::move(_lambda)\<close> is part of the operand,
  so each operand move-constructs its own \<open>lambda\<close> from \<open>_lambda\<close>.
\<close>

fun scan_step ::
  "('c, 'a::len word, 's, 'r) closure_type \<Rightarrow> 'a word \<Rightarrow>
   'r our_return \<times> bool \<times> 'c \<times> 's \<Rightarrow> nat \<Rightarrow> 'r our_return \<times> bool \<times> 'c \<times> 's" where
  "scan_step F value (result, hasValue, lambda0, s) Is =
     (case move_ctor F lambda0 of (lambda, lambda1) \<Rightarrow>
        let option = (of_nat Is :: 'a word) in
        if \<not> hasValue \<and> option = value
        then (case invoke (call F) lambda option s of (r, s') \<Rightarrow> (r, True, lambda1, s'))
        else (result, hasValue, lambda1, s))"

text \<open>
  \<open>apply_helper\<close>: the comma fold runs its operands from left to right over the index
  sequence; the function returns \<open>result\<close>, and the model returns the outside state with it.
\<close>

definition apply_helper ::
  "bool \<Rightarrow> ('c, 'a::len word, 's, 'r) closure_type \<Rightarrow> 'a word \<Rightarrow> 'c \<Rightarrow> nat list \<Rightarrow> 's \<Rightarrow>
   'r our_return \<times> 's" where
  "apply_helper uninit F value lambda0 Is s =
     (case foldl (scan_step F value) (default_init uninit (call F), False, lambda0, s) Is of
        (result, hasValue, lambda1, s') \<Rightarrow> (result, s'))"

text \<open>
  \<open>constexpr_apply\<close>: the index sequence is \<open>0, \<dots>, static_cast<std::size_t>(Max) - 1\<close>.
  \<open>E\<close> is no wider than \<open>std::size_t\<close> and \<open>Max\<close> is not negative (a negative bound asks
  for an index sequence of more than \<open>2^63\<close> elements), so the conversion keeps the value.
\<close>

definition constexpr_apply ::
  "bool \<Rightarrow> ('c, 'a::len word, 's, 'r) closure_type \<Rightarrow> 'a word \<Rightarrow> 'a word \<Rightarrow> 'c \<Rightarrow> 's \<Rightarrow>
   'r our_return \<times> 's" where
  "constexpr_apply uninit F value Max_bound lambda0 s =
     apply_helper uninit F value lambda0 [0..<unat Max_bound] s"

text \<open>
  Two notions used to state what the scan does. \<open>moved_from F c\<close> is what an object holding
  \<open>c\<close> holds after it has been moved from; \<open>nth_lambda F c n\<close> is the \<open>lambda\<close> that the
  operand at position \<open>n\<close> of the fold captures when \<open>apply_helper\<close> received an object
  holding \<open>c\<close>: the result of the move after \<open>n\<close> earlier moves.
\<close>

definition moved_from :: "('c, 'e, 's, 'r) closure_type \<Rightarrow> 'c \<Rightarrow> 'c" where
  "moved_from F c = snd (move_ctor F c)"

definition nth_lambda :: "('c, 'e, 's, 'r) closure_type \<Rightarrow> 'c \<Rightarrow> nat \<Rightarrow> 'c" where
  "nth_lambda F c n = fst (move_ctor F ((moved_from F ^^ n) c))"

text \<open>
  Instrumentation for counting handler executions: \<open>logged h\<close> is the handler \<open>h\<close> whose
  every instantiation also appends its constant to a log kept beside the outside state.
\<close>

fun logged :: "('c, 'e, 's, 'r) call_operator \<Rightarrow> ('c, 'e, 's \<times> 'e list, 'r) call_operator" where
  "logged (ReturnsVoid f) = ReturnsVoid (\<lambda>c e (s, log). (f c e s, log @ [e]))"
| "logged (ReturnsValue f) =
     ReturnsValue (\<lambda>c e (s, log). case f c e s of (r, s') \<Rightarrow> (r, (s', log @ [e])))"
| "logged (ReturnsOptional f) =
     ReturnsOptional (\<lambda>c e (s, log). case f c e s of (r, s') \<Rightarrow> (r, (s', log @ [e])))"

text \<open>
  Handlers used as concrete inputs.
  \<^item> \<open>counting_signal\<close>: \<open>[&n] (auto) { ++n; }\<close>, a \<open>void\<close> handler that counts its calls
    in a variable captured by reference.
  \<^item> \<open>pure_signal\<close>: \<open>[] (auto) {}\<close>.
  \<^item> \<open>returns_captured\<close>: \<open>[k = std::vector<int> {\<dots>}] (auto) { return k; }\<close>, which returns
    the vector it captured by value. Moving a \<open>std::vector\<close> leaves the source empty.
  \<^item> \<open>counting_absent\<close>: \<open>[&n] (auto) -> std::optional<int> { ++n; return std::nullopt; }\<close>.
  \<^item> \<open>present_seven\<close>: \<open>[] (auto) -> std::optional<int> { return 7; }\<close>.
  \<^item> \<open>reports_moves\<close>: a handler that returns the number it holds, of a type whose move
    constructor gives the new object the number of the source and adds one to the source's.
    The object that is called thus reports how many moves were made from \<open>_lambda\<close> before
    the one that created it.
\<close>

definition counting_signal :: "(unit, 'e, nat, unit) closure_type" where
  "counting_signal = \<lparr>move_ctor = (\<lambda>c. (c, c)), call = ReturnsVoid (\<lambda>c e n. Suc n)\<rparr>"

definition pure_signal :: "(unit, 'e, unit, unit) closure_type" where
  "pure_signal = \<lparr>move_ctor = (\<lambda>c. (c, c)), call = ReturnsVoid (\<lambda>c e s. s)\<rparr>"

definition returns_captured :: "(int list, 'e, unit, int list) closure_type" where
  "returns_captured = \<lparr>move_ctor = (\<lambda>k. (k, [])), call = ReturnsValue (\<lambda>k e s. (k, s))\<rparr>"

definition counting_absent :: "(unit, 'e, nat, int) closure_type" where
  "counting_absent =
     \<lparr>move_ctor = (\<lambda>c. (c, c)), call = ReturnsOptional (\<lambda>c e n. (None, Suc n))\<rparr>"

definition present_seven :: "(unit, 'e, unit, int) closure_type" where
  "present_seven = \<lparr>move_ctor = (\<lambda>c. (c, c)), call = ReturnsOptional (\<lambda>c e s. (Some 7, s))\<rparr>"

definition reports_moves :: "(nat, 'e, unit, nat) closure_type" where
  "reports_moves = \<lparr>move_ctor = (\<lambda>n. (n, Suc n)), call = ReturnsValue (\<lambda>n e s. (n, s))\<rparr>"


section \<open>min, max and clamp utilities\<close>

text \<open>
  The templates take any type \<open>T\<close> with a \<open>operator<\<close>, so the model is over any type with
  a \<open>less\<close>: \<open>std::min (a, b)\<close> returns \<open>b\<close> when \<open>b < a\<close> and \<open>a\<close> otherwise;
  \<open>std::max (a, b)\<close> returns \<open>b\<close> when \<open>a < b\<close> and \<open>a\<close> otherwise.
\<close>

definition std_min :: "'a::ord \<Rightarrow> 'a \<Rightarrow> 'a" where
  "std_min a b = (if b < a then b else a)"

definition std_max :: "'a::ord \<Rightarrow> 'a \<Rightarrow> 'a" where
  "std_max a b = (if a < b then b else a)"

record 'a Range =
  min_val :: 'a
  max_val :: 'a


text \<open>
  The variadic \<open>min\<close> and \<open>max\<close> recurse on the parameter pack: the one-argument overload
  returns its argument, the other combines the first argument with the result for the rest.
  A call has at least one argument, so the pack is \<open>arg0\<close> and the list of the others.
\<close>

fun min_args :: "'a::ord \<Rightarrow> 'a list \<Rightarrow> 'a" where
  "min_args arg0 [] = arg0"
| "min_args arg0 (arg1 # args) = std_min arg0 (min_args arg1 args)"

fun max_args :: "'a::ord \<Rightarrow> 'a list \<Rightarrow> 'a" where
  "max_args arg0 [] = arg0"
| "max_args arg0 (arg1 # args) = std_max arg0 (max_args arg1 args)"

definition range_args :: "'a::ord \<Rightarrow> 'a list \<Rightarrow> 'a Range" where
  "range_args arg0 args = \<lparr>min_val = min_args arg0 args, max_val = max_args arg0 args\<rparr>"

text \<open>
  The integer types are linear orders. A floating-point type is not: it has the numbers,
  ordered linearly, and NaN, for which every comparison is false. \<open>'a fp\<close> is such a type as
  far as its comparisons go, with the numbers taken from \<open>'a\<close> (the two zeros compare equal
  and are one number here).
\<close>

datatype 'a fp = NaN | Num 'a

instantiation fp :: (ord) ord
begin

fun less_fp :: "'a fp \<Rightarrow> 'a fp \<Rightarrow> bool" where
  "less_fp (Num a) (Num b) = (a < b)"
| "less_fp NaN y = False"
| "less_fp (Num a) NaN = False"

fun less_eq_fp :: "'a fp \<Rightarrow> 'a fp \<Rightarrow> bool" where
  "less_eq_fp (Num a) (Num b) = (a \<le> b)"
| "less_eq_fp NaN y = False"
| "less_eq_fp (Num a) NaN = False"

instance ..

end


section \<open>The reference counted singleton (\<open>getOrCreate\<close>)\<close>

text \<open>
  \<open>getOrCreate\<close> is a function template, and its function-local static \<open>_weak\<close> exists once
  per specialisation, that is once per combination of the types \<open>Fn\<close> and \<open>Args...\<close>. A
  specialisation is named by a number. The state of the process: for each specialisation
  whether its \<open>_weak\<close> has been initialised and the object it observes; the number of
  \<open>shared_ptr\<close> owners of each object (an object with no owner is destroyed); the number of
  factory calls so far; and everything a factory reads and writes, which includes the
  arguments, as they are passed by reference.

  The factory is a parameter of the call. It acts on what it can reach and either returns
  an owning pointer to an object or an empty pointer (\<open>None\<close>), or throws. \<open>getOrCreate\<close>
  catches nothing, so its outcome is a handle or the exception of the factory.
\<close>

type_synonym obj = nat

type_synonym specialisation = nat

datatype 'a outcome = Throws | Returns 'a

type_synonym 'f factory = "'f \<Rightarrow> obj option outcome \<times> 'f"

record 'f process =
  weak_initialised :: "specialisation \<Rightarrow> bool"
  weak_target :: "specialisation \<Rightarrow> obj option"
  use_count :: "obj \<Rightarrow> nat"
  factory_calls :: nat
  outside :: 'f

definition call_factory ::
  "'f factory \<Rightarrow> 'f process \<Rightarrow> obj option outcome \<times> 'f process" where
  "call_factory factory st =
     (case factory (outside st) of
        (r, w) \<Rightarrow> (r, st\<lparr>factory_calls := Suc (factory_calls st), outside := w\<rparr>))"

text \<open>
  Constructing and copying a \<open>shared_ptr\<close> add an owner, destroying or overwriting one takes
  an owner away; the empty pointer owns nothing. \<open>std::shared_ptr<Type> (factory (\<dots>))\<close>
  takes over what the factory returned.
\<close>

fun shared_ptr_copy :: "obj option \<Rightarrow> 'f process \<Rightarrow> 'f process" where
  "shared_ptr_copy None st = st"
| "shared_ptr_copy (Some p) st = st\<lparr>use_count := (use_count st)(p := Suc (use_count st p))\<rparr>"

definition shared_ptr_adopt :: "obj option \<Rightarrow> 'f process \<Rightarrow> 'f process" where
  "shared_ptr_adopt r st = shared_ptr_copy r st"

fun shared_ptr_release :: "obj option \<Rightarrow> 'f process \<Rightarrow> 'f process" where
  "shared_ptr_release None st = st"
| "shared_ptr_release (Some p) st = st\<lparr>use_count := (use_count st)(p := use_count st p - 1)\<rparr>"

text \<open>\<open>_weak.lock ()\<close>: a new owner of the observed object when it still has one.\<close>

definition weak_lock :: "specialisation \<Rightarrow> 'f process \<Rightarrow> obj option \<times> 'f process" where
  "weak_lock k st =
     (case weak_target st k of
        None \<Rightarrow> (None, st)
      | Some p \<Rightarrow> if 0 < use_count st p then (Some p, shared_ptr_copy (Some p) st) else (None, st))"

text \<open>
  The initialiser of the static \<open>_weak\<close>, run when control passes the declaration while
  \<open>_weak\<close> is not initialised: the invoked lambda stores what the factory returned in
  \<open>_shared\<close> and returns a copy of it, \<open>_weak\<close> is constructed from that temporary, and
  the temporary is destroyed. It yields the new value of \<open>_shared\<close>. When the factory
  throws, \<open>_shared\<close> is still empty and \<open>_weak\<close> stays uninitialised, to be tried again by
  the next call.
\<close>

definition static_initialiser ::
  "specialisation \<Rightarrow> 'f factory \<Rightarrow> 'f process \<Rightarrow> obj option outcome \<times> 'f process" where
  "static_initialiser k factory st =
     (case call_factory factory st of
        (Throws, st1) \<Rightarrow> (Throws, st1)
      | (Returns r, st1) \<Rightarrow>
          let st2 = shared_ptr_adopt r st1;
              st3 = shared_ptr_copy r st2;
              st4 = st3\<lparr>weak_initialised := (weak_initialised st3)(k := True),
                       weak_target := (weak_target st3)(k := r)\<rparr>;
              st5 = shared_ptr_release r st4
          in (Returns r, st5))"

text \<open>
  \<open>getOrCreate\<close>: the declaration of \<open>_shared\<close> and \<open>_weak\<close>, the \<open>lock\<close>, and the
  creation of a new instance when the lock gave nothing. An exception leaves the function and
  destroys \<open>_shared\<close> on the way.
\<close>

definition getOrCreate ::
  "specialisation \<Rightarrow> 'f factory \<Rightarrow> 'f process \<Rightarrow> obj option outcome \<times> 'f process" where
  "getOrCreate k factory st =
     (case (if weak_initialised st k then (Returns None, st)
            else static_initialiser k factory st) of
        (Throws, st1) \<Rightarrow> (Throws, st1)
      | (Returns shared, st1) \<Rightarrow>
          (case weak_lock k st1 of
             (Some ptr, st2) \<Rightarrow> (Returns (Some ptr), shared_ptr_release shared st2)
           | (None, st2) \<Rightarrow>
               (case call_factory factory st2 of
                  (Throws, st3) \<Rightarrow> (Throws, shared_ptr_release shared st3)
                | (Returns r, st3) \<Rightarrow>
                    let st4 = shared_ptr_release shared (shared_ptr_adopt r st3);
                        st5 = st4\<lparr>weak_target := (weak_target st4)(k := r)\<rparr>
                    in (Returns r, st5))))"

text \<open>
  A specialisation has a live instance when its \<open>_weak\<close> is initialised and the object it
  observes has an owner. The process starts with nothing initialised; a caller that drops a
  handle releases it. \<open>fresh_factory\<close> makes a new object at each call, naming it by a counter
  it keeps; \<open>empty_factory\<close> returns an empty pointer; \<open>throwing_factory\<close> throws.
\<close>

definition live :: "specialisation \<Rightarrow> 'f process \<Rightarrow> bool" where
  "live k st =
     (weak_initialised st k \<and>
      (case weak_target st k of None \<Rightarrow> False | Some p \<Rightarrow> 0 < use_count st p))"

definition initial_process :: "'f \<Rightarrow> 'f process" where
  "initial_process w =
     \<lparr>weak_initialised = (\<lambda>k. False), weak_target = (\<lambda>k. None), use_count = (\<lambda>p. 0),
      factory_calls = 0, outside = w\<rparr>"

definition drop_handle :: "obj option \<Rightarrow> 'f process \<Rightarrow> 'f process" where
  "drop_handle h st = shared_ptr_release h st"

definition fresh_factory :: "nat factory" where
  "fresh_factory n = (Returns (Some n), Suc n)"

definition empty_factory :: "unit factory" where
  "empty_factory w = (Returns None, w)"

definition throwing_factory :: "unit factory" where
  "throwing_factory w = (Throws, w)"


section \<open>What the scan computes\<close>

lemma scan_matched:
  "foldl (scan_step F v) (r, True, c, s) Is = (r, True, (moved_from F ^^ length Is) c, s)"
proof (induction Is arbitrary: c)
  case Nil
  show ?case by simp
next
  case (Cons i Is)
  have "scan_step F v (r, True, c, s) i = (r, True, moved_from F c, s)"
    by (simp add: moved_from_def split: prod.splits)
  then show ?case
    using Cons.IH [of "moved_from F c"] by (simp add: funpow_swap1)
qed

lemma scan_unmatched:
  "\<forall>i \<in> set Is. of_nat i \<noteq> v \<Longrightarrow>
   foldl (scan_step F v) (r, False, c, s) Is = (r, False, (moved_from F ^^ length Is) c, s)"
proof (induction Is arbitrary: c)
  case Nil
  show ?case by simp
next
  case (Cons i Is)
  from Cons.prems have "of_nat i \<noteq> v" by simp
  then have "scan_step F v (r, False, c, s) i = (r, False, moved_from F c, s)"
    by (simp add: moved_from_def split: prod.splits)
  moreover from Cons.prems have "\<forall>j \<in> set Is. of_nat j \<noteq> v" by simp
  ultimately show ?case
    using Cons.IH [of "moved_from F c"] by (simp add: funpow_swap1)
qed

lemma scan_first_match:
  assumes pre: "\<forall>j \<in> set pre. of_nat j \<noteq> v" and hit: "of_nat i = v"
  shows "foldl (scan_step F v) (r, False, c, s) (pre @ i # post) =
         (fst (invoke (call F) (nth_lambda F c (length pre)) v s), True,
          (moved_from F ^^ length post) (moved_from F ((moved_from F ^^ length pre) c)),
          snd (invoke (call F) (nth_lambda F c (length pre)) v s))"
proof -
  let ?c = "(moved_from F ^^ length pre) c"
  have "scan_step F v (r, False, ?c, s) i =
        (fst (invoke (call F) (nth_lambda F c (length pre)) v s), True, moved_from F ?c,
         snd (invoke (call F) (nth_lambda F c (length pre)) v s))"
    using hit by (simp add: moved_from_def nth_lambda_def split: prod.splits)
  then show ?thesis
    using scan_unmatched [OF pre, of F r c s]
    by (simp add: scan_matched)
qed

lemma apply_helper_no_match:
  "\<forall>i \<in> set Is. of_nat i \<noteq> v \<Longrightarrow>
   apply_helper u F v c Is s = (default_init u (call F), s)"
  by (simp add: apply_helper_def scan_unmatched)

lemma apply_helper_first_match:
  "\<forall>j \<in> set pre. of_nat j \<noteq> v \<Longrightarrow> of_nat i = v \<Longrightarrow>
   apply_helper u F v c (pre @ i # post) s = invoke (call F) (nth_lambda F c (length pre)) v s"
  unfolding apply_helper_def by (subst scan_first_match) simp_all

lemma of_nat_below_neq:
  fixes v :: "'a::len word"
  assumes "j < unat v"
  shows "(of_nat j :: 'a word) \<noteq> v"
proof
  assume "(of_nat j :: 'a word) = v"
  then have "unat (of_nat j :: 'a word) = unat v" by simp
  moreover have "j < 2 ^ LENGTH('a)"
    using assms unsigned_less [of v] by (rule order.strict_trans)
  ultimately show False using assms by (simp add: unat_of_nat)
qed

lemma constexpr_apply_outside:
  fixes v N :: "'a::len word"
  assumes "\<not> unat v < unat N"
  shows "constexpr_apply u F v N c s = (default_init u (call F), s)"
proof -
  have "\<forall>i \<in> set [0..<unat N]. (of_nat i :: 'a word) \<noteq> v"
  proof
    fix i assume "i \<in> set [0..<unat N]"
    then have "i < unat v" using assms by simp
    then show "(of_nat i :: 'a word) \<noteq> v" by (rule of_nat_below_neq)
  qed
  then show ?thesis
    by (simp add: constexpr_apply_def apply_helper_no_match)
qed

lemma constexpr_apply_inside:
  fixes v N :: "'a::len word"
  assumes "unat v < unat N"
  shows "constexpr_apply u F v N c s = invoke (call F) (nth_lambda F c (unat v)) v s"
proof -
  have split: "[0..<unat N] = [0..<unat v] @ unat v # [Suc (unat v)..<unat N]"
    using assms by (metis le_add2 le_add_same_cancel2 less_imp_add_positive upt_add_eq_append upt_conv_Cons)
  have pre: "\<forall>j \<in> set [0..<unat v]. (of_nat j :: 'a word) \<noteq> v"
    by (auto dest: of_nat_below_neq)
  have hit: "(of_nat (unat v) :: 'a word) = v" by simp
  show ?thesis
    unfolding constexpr_apply_def split
    using apply_helper_first_match [OF pre hit] by simp
qed

lemma logged_void [simp]: "hasVoidReturnType (logged h) = hasVoidReturnType h"
  by (cases h) simp_all

lemma invoke_logged:
  "snd (snd (invoke (logged h) c e (s, log))) = log @ [e]"
  by (cases h) (simp_all split: prod.splits)

lemma invoke_logged_fst:
  "fst (invoke (logged h) c e (s, log)) = fst (invoke h c e s)"
  by (cases h) (simp_all split: prod.splits)

lemma invoke_logged_eq:
  "invoke (logged h) c e (s, log) = (fst (invoke h c e s), snd (invoke h c e s), log @ [e])"
  by (cases h) (simp_all split: prod.splits)

lemma default_init_logged: "default_init u (logged h) = default_init u h"
  by (simp add: default_init_def)

lemma nth_lambda_call: "nth_lambda \<lparr>move_ctor = mv, call = h\<rparr> c n = nth_lambda \<lparr>move_ctor = mv, call = h'\<rparr> c n"
proof -
  have "moved_from \<lparr>move_ctor = mv, call = h\<rparr> = moved_from \<lparr>move_ctor = mv, call = h'\<rparr>"
    by (rule ext) (simp add: moved_from_def)
  then show ?thesis by (simp add: nth_lambda_def)
qed

text \<open>
  C3: every call runs at most one handler instantiation, and exactly one when the runtime
  value lies in \<open>[0, N)\<close>; the constants are scanned in ascending order, the first one equal
  to the value runs the handler, and \<open>hasValue\<close> keeps every later constant from running it
  or overwriting the result. With every instantiation logging its constant:
  \<^item> \<open>apply_helper\<close> on any index sequence (any order, with repetitions) in which some
    index converts to \<open>value\<close> returns the result and the state of one call of the handler at
    the constant \<open>value\<close>, made by the operand at the first such position (the object called
    is the one moved from \<open>_lambda\<close> after as many earlier moves as there are indices before
    that position), and the log is the single entry \<open>value\<close>; otherwise it returns the
    default result, the state unchanged and an empty log;
  \<^item> \<open>constexpr_apply\<close> with \<open>value < N\<close> returns the result and the state of one call at
    the constant \<open>value\<close>, made by the operand at position \<open>value\<close> of the scan, and the
    log \<open>[value]\<close>; otherwise the default result, the state unchanged and an empty log.
\<close>

theorem one_handler_execution:
  fixes v N :: "'a::len word"
  shows "apply_helper u \<lparr>move_ctor = mv, call = logged h\<rparr> v c Is (s, []) =
           (if v \<in> of_nat ` set Is
            then (fst (invoke h (nth_lambda \<lparr>move_ctor = mv, call = h\<rparr> c
                         (length (takeWhile (\<lambda>i. of_nat i \<noteq> v) Is))) v s),
                  snd (invoke h (nth_lambda \<lparr>move_ctor = mv, call = h\<rparr> c
                         (length (takeWhile (\<lambda>i. of_nat i \<noteq> v) Is))) v s),
                  [v])
            else (default_init u h, s, []))
         \<and> constexpr_apply u \<lparr>move_ctor = mv, call = logged h\<rparr> v N c (s, []) =
           (if unat v < unat N
            then (fst (invoke h (nth_lambda \<lparr>move_ctor = mv, call = h\<rparr> c (unat v)) v s),
                  snd (invoke h (nth_lambda \<lparr>move_ctor = mv, call = h\<rparr> c (unat v)) v s),
                  [v])
            else (default_init u h, s, []))"
proof
  let ?F = "\<lparr>move_ctor = mv, call = logged h\<rparr>"
  let ?G = "\<lparr>move_ctor = mv, call = h\<rparr>"
  let ?pre = "takeWhile (\<lambda>i. (of_nat i :: 'a word) \<noteq> v) Is"
  have nth: "nth_lambda ?F c n = nth_lambda ?G c n" for n
    by (rule nth_lambda_call)
  show "apply_helper u ?F v c Is (s, []) =
        (if v \<in> of_nat ` set Is
         then (fst (invoke h (nth_lambda ?G c (length ?pre)) v s),
               snd (invoke h (nth_lambda ?G c (length ?pre)) v s), [v])
         else (default_init u h, s, []))"
  proof (cases "\<exists>i \<in> set Is. of_nat i = v")
    case True
    then have "dropWhile (\<lambda>i. (of_nat i :: 'a word) \<noteq> v) Is \<noteq> []"
      by (auto simp: dropWhile_eq_Nil_conv)
    then obtain i post where dw: "dropWhile (\<lambda>i. (of_nat i :: 'a word) \<noteq> v) Is = i # post"
      by (cases "dropWhile (\<lambda>i. (of_nat i :: 'a word) \<noteq> v) Is") auto
    then have hit: "(of_nat i :: 'a word) = v"
      using hd_dropWhile [of "\<lambda>i. (of_nat i :: 'a word) \<noteq> v" Is] by auto
    have Is: "Is = ?pre @ i # post"
      using dw takeWhile_dropWhile_id [of "\<lambda>i. (of_nat i :: 'a word) \<noteq> v" Is] by simp
    have pre: "\<forall>j \<in> set ?pre. (of_nat j :: 'a word) \<noteq> v"
      by (auto dest: set_takeWhileD)
    have "apply_helper u ?F v c (?pre @ i # post) (s, []) =
          invoke (call ?F) (nth_lambda ?F c (length ?pre)) v (s, [])"
      using pre hit by (rule apply_helper_first_match)
    with Is have "apply_helper u ?F v c Is (s, []) =
          invoke (logged h) (nth_lambda ?G c (length ?pre)) v (s, [])"
      by (simp add: nth)
    with True show ?thesis
      by (auto simp: invoke_logged_eq)
  next
    case False
    then have "\<forall>i \<in> set Is. (of_nat i :: 'a word) \<noteq> v" by simp
    then have "apply_helper u ?F v c Is (s, []) = (default_init u (call ?F), (s, []))"
      by (rule apply_helper_no_match)
    with False show ?thesis
      by (auto simp: default_init_logged)
  qed
  show "constexpr_apply u ?F v N c (s, []) =
        (if unat v < unat N
         then (fst (invoke h (nth_lambda ?G c (unat v)) v s),
               snd (invoke h (nth_lambda ?G c (unat v)) v s), [v])
         else (default_init u h, s, []))"
    by (simp add: constexpr_apply_inside constexpr_apply_outside invoke_logged_eq nth
        default_init_logged)
qed

lemma nth_lambda_reports_moves:
  "nth_lambda \<lparr>move_ctor = move_ctor reports_moves, call = h\<rparr> c n = c + n"
proof -
  have "(moved_from \<lparr>move_ctor = move_ctor reports_moves, call = h\<rparr> ^^ n) c = c + n"
    by (induction n) (simp_all add: moved_from_def reports_moves_def)
  then show ?thesis by (simp add: nth_lambda_def reports_moves_def)
qed

theorem one_handler_execution_witness:
  "apply_helper False \<lparr>move_ctor = move_ctor reports_moves, call = logged (call reports_moves)\<rparr>
       (1 :: 8 word) 0 [0, 1, 1, 257] ((), []) = (OptionalResult (Some 1), (), [1])
   \<and> constexpr_apply False \<lparr>move_ctor = move_ctor reports_moves, call = logged (call reports_moves)\<rparr>
       (2 :: 8 word) 5 0 ((), []) = (OptionalResult (Some 2), (), [2])
   \<and> constexpr_apply False \<lparr>move_ctor = move_ctor reports_moves, call = logged (call reports_moves)\<rparr>
       (5 :: 8 word) 5 0 ((), []) = (OptionalResult None, (), [])"
  using one_handler_execution [of False "move_ctor reports_moves" "call reports_moves" "1 :: 8 word" 0 "[0, 1, 1, 257]" "()" 5]
    one_handler_execution [of False "move_ctor reports_moves" "call reports_moves" "2 :: 8 word" 0 "[]" "()" 5]
    one_handler_execution [of False "move_ctor reports_moves" "call reports_moves" "5 :: 8 word" 0 "[]" "()" 5]
  by (simp add: nth_lambda_reports_moves default_init_def) (simp add: reports_moves_def)


section \<open>Results of the dispatcher\<close>

lemma outside_default:
  fixes v N :: "'a::len word"
  assumes "\<not> unat v < unat N"
  shows "snd (constexpr_apply u F v N c s) = s"
    and "\<not> hasVoidReturnType (call F) \<Longrightarrow> fst (constexpr_apply u F v N c s) = OptionalResult None"
    and "hasVoidReturnType (call F) \<Longrightarrow> fst (constexpr_apply u F v N c s) = BoolResult u"
  using assms by (simp_all add: constexpr_apply_outside default_init_def)

lemma inside_signal:
  fixes v N :: "'a::len word"
  assumes "unat v < unat N" and "call F = ReturnsVoid f"
  shows "fst (constexpr_apply u F v N c s) = BoolResult True"
  using assms by (simp add: constexpr_apply_inside)

lemma inside_constant:
  fixes v N :: "'a::len word"
  assumes "unat v < unat N" and "call F = ReturnsValue f"
    and "\<forall>c' e s'. fst (f c' e s') = k"
  shows "fst (constexpr_apply u F v N c s) = OptionalResult (Some k)"
  using assms by (simp add: constexpr_apply_inside split: prod.splits) (metis fst_conv)

lemma nth_lambda_copy:
  assumes "\<forall>c. move_ctor F c = (c, c)"
  shows "nth_lambda F c n = c"
proof -
  have "(moved_from F ^^ n) c = c"
    using assms by (induction n) (simp_all add: moved_from_def)
  then show ?thesis using assms by (simp add: nth_lambda_def)
qed

lemma inside_constant_copy:
  fixes v N :: "'a::len word"
  assumes "unat v < unat N" and "call F = ReturnsValue f"
    and "\<forall>c. move_ctor F c = (c, c)" and "\<forall>e s'. fst (f c e s') = k"
  shows "fst (constexpr_apply u F v N c s) = OptionalResult (Some k)"
  using assms by (simp add: constexpr_apply_inside nth_lambda_copy split: prod.splits) (metis fst_conv)

text \<open>
  C1: for a runtime value outside \<open>[0, N)\<close> the handler is never invoked and the result is
  the default, \<open>false\<close> in signal mode and an absent optional in value mode. The handler is
  indeed not invoked and value mode gives the absent optional (\<open>outside_default\<close>), but in
  signal mode the result is the \<open>bool\<close> that was never initialised: with value \<open>3\<close>,
  bound \<open>3\<close>, the counting \<open>void\<close> handler and storage that held \<open>true\<close>, the counter stays
  \<open>0\<close> and the call returns \<open>true\<close>.
\<close>

theorem outside_signal_result_uninitialised:
  "constexpr_apply True counting_signal (3 :: 8 word) 3 () 0 = (BoolResult True, 0)"
  by code_simp

text \<open>
  C4: for a bound of \<open>0\<close> the scan is empty, the handler is never invoked and the result is
  the default. The handler is not invoked and value mode gives the absent optional
  (\<open>outside_default\<close>, as no value is below \<open>0\<close>), but the signal-mode result is the
  uninitialised \<open>bool\<close>: with bound \<open>0\<close> and storage that held \<open>true\<close> the call returns
  \<open>true\<close>.
\<close>

theorem empty_scan_signal_result_uninitialised:
  "constexpr_apply True counting_signal (5 :: 8 word) 0 () 0 = (BoolResult True, 0)"
  by code_simp

text \<open>
  C6: two calls with the same value, bound and pure handler return the same result. In value
  mode, and in signal mode with a value inside the bound, the result does not mention the
  uninitialised storage (\<open>constexpr_apply_inside\<close>, \<open>outside_default\<close>). In signal mode with
  a value outside the bound it is that storage: two calls with value \<open>1\<close>, bound \<open>1\<close> and
  the handler that does nothing differ when the storage differs.
\<close>

theorem signal_result_varies_with_storage:
  "constexpr_apply True pure_signal (1 :: 8 word) 1 () () \<noteq>
   constexpr_apply False pure_signal (1 :: 8 word) 1 () ()"
  by code_simp

text \<open>
  C2: for a value inside the bound, a \<open>void\<close> handler gives \<open>true\<close> (\<open>inside_signal\<close>) and a
  handler that returns a constant \<open>k\<close> gives a present \<open>k\<close>. The latter holds when the
  handler returns \<open>k\<close> whatever its captures hold, or when moving it leaves the source as it
  was (\<open>inside_constant\<close>, \<open>inside_constant_copy\<close>). It fails for a handler that returns a
  constant it captured by value and that a move empties: the handler capturing the vector
  \<open>{1, 2, 3}\<close> returns that vector when called, but \<open>constexpr_apply\<close> with value \<open>1\<close> and
  bound \<open>2\<close> calls a copy made from the object after the operand for constant \<open>0\<close> has moved
  from it, and returns a present empty vector.
\<close>

theorem moved_from_handler_called:
  "invoke (call returns_captured) [1, 2, 3] (1 :: 8 word) () = (OptionalResult (Some [1, 2, 3]), ())
   \<and> constexpr_apply False returns_captured (1 :: 8 word) 2 [1, 2, 3] () = (OptionalResult (Some []), ())"
  by code_simp

text \<open>
  C5, as stated: with a handler that returns an optional, a call whose dispatched handler
  returned an absent optional can be told from a call that did not dispatch by the presence
  flag of the result. It cannot: with bound \<open>1\<close> and the handler that counts its calls and
  returns \<open>std::nullopt\<close>, value \<open>0\<close> dispatches (the counter becomes \<open>1\<close>) and value \<open>1\<close>
  does not (the counter stays \<open>0\<close>), and both calls return the same absent optional.
\<close>

theorem absent_results_coincide:
  "fst (constexpr_apply False counting_absent (0 :: 8 word) 1 () 0) =
   fst (constexpr_apply False counting_absent (1 :: 8 word) 1 () 0)
   \<and> snd (constexpr_apply False counting_absent (0 :: 8 word) 1 () 0) = 1
   \<and> snd (constexpr_apply False counting_absent (1 :: 8 word) 1 () 0) = 0"
  by code_simp

text \<open>
  C5, amended: with a handler that returns an optional, the result is the optional that the
  dispatched handler returned when the value is inside the bound, and the absent optional
  otherwise. So a present result tells that a handler was dispatched, and an absent result is
  returned both when nothing was dispatched and when the dispatched handler returned an absent
  optional.
\<close>

theorem optional_handler_result:
  fixes v N :: "'a::len word"
  assumes "call F = ReturnsOptional f"
  shows "fst (constexpr_apply u F v N c s) =
         OptionalResult (if unat v < unat N then fst (f (nth_lambda F c (unat v)) v s) else None)"
  using assms
  by (simp add: constexpr_apply_inside constexpr_apply_outside default_init_def split: prod.splits)

theorem optional_handler_result_witness:
  "call counting_absent = ReturnsOptional (\<lambda>c e n. (None, Suc n))
   \<and> fst (constexpr_apply False counting_absent (0 :: 8 word) 1 () 0) = OptionalResult None
   \<and> call present_seven = ReturnsOptional (\<lambda>c e s. (Some 7, s))
   \<and> fst (constexpr_apply False present_seven (2 :: 8 word) 3 () ()) = OptionalResult (Some 7)
   \<and> fst (constexpr_apply False present_seven (3 :: 8 word) 3 () ()) = OptionalResult None"
  using optional_handler_result [of counting_absent "\<lambda>c e n. (None, Suc n)" False "0 :: 8 word" 1 "()" 0]
    optional_handler_result [of present_seven "\<lambda>c e s. (Some 7, s)" False "2 :: 8 word" 3 "()" "()"]
    optional_handler_result [of present_seven "\<lambda>c e s. (Some 7, s)" False "3 :: 8 word" 3 "()" "()"]
  by (simp add: counting_absent_def present_seven_def)


section \<open>Results on min, max and clamp\<close>

lemma std_min_eq_min: "std_min a b = min a (b :: 'a::linorder)"
  by (auto simp: std_min_def min_def)

lemma std_max_eq_max: "std_max a b = max a (b :: 'a::linorder)"
  by (auto simp: std_max_def max_def)

lemma std_min_Num: "std_min (Num a) (Num b) = Num (std_min a b)"
  by (simp add: std_min_def)

lemma std_max_Num: "std_max (Num a) (Num b) = Num (std_max a b)"
  by (simp add: std_max_def)


lemma min_args_Min: "min_args a as = Min (set (a # as :: 'a::linorder list))"
proof (induction a as rule: min_args.induct)
  case (1 arg0)
  show ?case by simp
next
  case (2 arg0 arg1 args)
  then show ?case by (simp add: std_min_eq_min)
qed

lemma max_args_Max: "max_args a as = Max (set (a # as :: 'a::linorder list))"
proof (induction a as rule: max_args.induct)
  case (1 arg0)
  show ?case by simp
next
  case (2 arg0 arg1 args)
  then show ?case by (simp add: std_max_eq_max)
qed

lemma min_args_Num: "min_args (Num a) (map Num as) = Num (min_args a as)"
  by (induction a as rule: min_args.induct) (simp_all add: std_min_Num)

lemma max_args_Num: "max_args (Num a) (map Num as) = Num (max_args a as)"
  by (induction a as rule: max_args.induct) (simp_all add: std_max_Num)

text \<open>
  C8, as stated: for every non-empty argument list the variadic \<open>min\<close> returns the least
  argument, \<open>max\<close> the greatest, and \<open>range\<close> the tightest interval holding all arguments.
  With a NaN among floating-point arguments this fails: \<open>min (2, NaN, 1)\<close> is \<open>2\<close> though
  \<open>1 < 2\<close>, \<open>max (1, NaN, 2)\<close> is \<open>1\<close>, and \<open>range (1, NaN, 0)\<close> is \<open>{1, 1}\<close>, which
  leaves out the argument \<open>0\<close>.
\<close>

theorem variadic_nan_hides_arguments:
  "min_args (Num 2) [NaN, Num (1 :: int)] = Num 2
   \<and> max_args (Num 1) [NaN, Num (2 :: int)] = Num 1
   \<and> range_args (Num 1) [NaN, Num (0 :: int)] = \<lparr>min_val = Num 1, max_val = Num 1\<rparr>
   \<and> Num (1 :: int) < Num 2
   \<and> Num (0 :: int) < Num 1"
  by (simp add: range_args_def std_min_def std_max_def)

text \<open>
  C8, amended: for every non-empty argument list of a linearly ordered type (the integer
  types), and for every non-empty list of floating-point arguments none of which is NaN, the
  variadic \<open>min\<close> returns the least argument, the variadic \<open>max\<close> the greatest, and \<open>range\<close>
  the \<open>Range\<close> from the least to the greatest argument, which is the tightest interval
  holding all of them; all three are total.
\<close>

theorem variadic_min_max_range:
  fixes arg0 :: "'a::linorder" and x :: "'b::linorder"
  shows "min_args arg0 args = Min (set (arg0 # args))
   \<and> max_args arg0 args = Max (set (arg0 # args))
   \<and> range_args arg0 args = \<lparr>min_val = Min (set (arg0 # args)), max_val = Max (set (arg0 # args))\<rparr>
   \<and> min_args (Num x) (map Num xs) = Num (Min (set (x # xs)))
   \<and> max_args (Num x) (map Num xs) = Num (Max (set (x # xs)))
   \<and> range_args (Num x) (map Num xs) =
       \<lparr>min_val = Num (Min (set (x # xs))), max_val = Num (Max (set (x # xs)))\<rparr>"
  by (simp only: range_args_def min_args_Min max_args_Max min_args_Num max_args_Num simp_thms)

theorem variadic_min_max_range_witness:
  "min_args (3 :: int) [1, 2] = 1 \<and> max_args (3 :: int) [1, 2] = 3
   \<and> range_args (3 :: int) [1, 2] = \<lparr>min_val = 1, max_val = 3\<rparr>
   \<and> range_args (Num (3 :: int)) [Num 1, Num 2] = \<lparr>min_val = Num 1, max_val = Num 3\<rparr>"
  using variadic_min_max_range [of "3 :: int" "[1, 2]" "3 :: int" "[1, 2]"]
  by simp







section \<open>Results on the singleton\<close>

lemma live_getOrCreate:
  assumes "live k st"
  shows "\<exists>p. weak_target st k = Some p \<and>
           getOrCreate k factory st =
             (Returns (Some p), st\<lparr>use_count := (use_count st)(p := Suc (use_count st p))\<rparr>)"
  using assms by (auto simp: live_def getOrCreate_def weak_lock_def split: option.splits)

lemma not_live_lock:
  assumes "\<not> live k st" and "weak_initialised st k"
  shows "weak_lock k st = (None, st)"
  using assms by (auto simp: live_def weak_lock_def split: option.splits)

lemma expired_getOrCreate_throws:
  assumes "weak_initialised st k" and "\<not> live k st" and "fst (factory (outside st)) = Throws"
  shows "getOrCreate k factory st =
         (Throws, st\<lparr>factory_calls := Suc (factory_calls st),
                      outside := snd (factory (outside st))\<rparr>)"
proof -
  obtain w where f: "factory (outside st) = (Throws, w)"
    using assms(3) by (cases "factory (outside st)") simp
  show ?thesis
    using assms(1) not_live_lock [OF assms(2,1)]
    by (simp add: getOrCreate_def call_factory_def f)
qed

lemma expired_getOrCreate_returns:
  assumes "weak_initialised st k" and "\<not> live k st" and "fst (factory (outside st)) = Returns r"
  shows "getOrCreate k factory st =
         (Returns r,
          shared_ptr_adopt r
            (st\<lparr>factory_calls := Suc (factory_calls st), outside := snd (factory (outside st)),
               weak_target := (weak_target st)(k := r)\<rparr>))"
proof -
  obtain w where f: "factory (outside st) = (Returns r, w)"
    using assms(3) by (cases "factory (outside st)") simp
  show ?thesis
    using assms(1) not_live_lock [OF assms(2,1)]
    by (cases r) (simp_all add: getOrCreate_def call_factory_def shared_ptr_adopt_def f)
qed

lemma first_getOrCreate_throws:
  assumes "\<not> weak_initialised st k" and "fst (factory (outside st)) = Throws"
  shows "getOrCreate k factory st =
         (Throws, st\<lparr>factory_calls := Suc (factory_calls st),
                      outside := snd (factory (outside st))\<rparr>)"
proof -
  obtain w where f: "factory (outside st) = (Throws, w)"
    using assms(2) by (cases "factory (outside st)") simp
  show ?thesis
    using assms(1)
    by (simp add: getOrCreate_def static_initialiser_def call_factory_def f)
qed

lemma first_getOrCreate_object:
  assumes "\<not> weak_initialised st k" and "fst (factory (outside st)) = Returns (Some p)"
  shows "getOrCreate k factory st =
         (Returns (Some p),
          st\<lparr>factory_calls := Suc (factory_calls st), outside := snd (factory (outside st)),
             use_count := (use_count st)(p := Suc (use_count st p)),
             weak_initialised := (weak_initialised st)(k := True),
             weak_target := (weak_target st)(k := Some p)\<rparr>)"
proof -
  obtain w where f: "factory (outside st) = (Returns (Some p), w)"
    using assms(2) by (cases "factory (outside st)") simp
  show ?thesis
    using assms(1)
    by (simp add: getOrCreate_def static_initialiser_def call_factory_def shared_ptr_adopt_def
        weak_lock_def f)
qed

lemma first_getOrCreate_empty_throws:
  assumes "\<not> weak_initialised st k" and "fst (factory (outside st)) = Returns None"
    and "fst (factory (snd (factory (outside st)))) = Throws"
  shows "getOrCreate k factory st =
         (Throws,
          st\<lparr>factory_calls := Suc (Suc (factory_calls st)),
             outside := snd (factory (snd (factory (outside st)))),
             weak_initialised := (weak_initialised st)(k := True),
             weak_target := (weak_target st)(k := None)\<rparr>)"
proof -
  obtain w where f: "factory (outside st) = (Returns None, w)"
    using assms(2) by (cases "factory (outside st)") simp
  obtain w' where f': "factory w = (Throws, w')"
    using assms(3) f by (cases "factory w") simp
  show ?thesis
    using assms(1)
    by (simp add: getOrCreate_def static_initialiser_def call_factory_def
        shared_ptr_adopt_def weak_lock_def f f')
qed

lemma first_getOrCreate_empty_returns:
  assumes "\<not> weak_initialised st k" and "fst (factory (outside st)) = Returns None"
    and "fst (factory (snd (factory (outside st)))) = Returns r"
  shows "getOrCreate k factory st =
         (Returns r,
          shared_ptr_adopt r
            (st\<lparr>factory_calls := Suc (Suc (factory_calls st)),
               outside := snd (factory (snd (factory (outside st)))),
               weak_initialised := (weak_initialised st)(k := True),
               weak_target := (weak_target st)(k := r)\<rparr>))"
proof -
  obtain w where f: "factory (outside st) = (Returns None, w)"
    using assms(2) by (cases "factory (outside st)") simp
  obtain w' where f': "factory w = (Returns r, w')"
    using assms(3) f by (cases "factory w") simp
  show ?thesis
    using assms(1)
    by (cases r)
      (simp_all add: getOrCreate_def static_initialiser_def call_factory_def
        shared_ptr_adopt_def weak_lock_def f f')
qed

text \<open>
  C9, as stated: \<open>getOrCreate\<close> returns a handle to a process-wide instance and calls the
  factory only when no live instance exists. The instance is not process-wide: after a call
  through specialisation \<open>0\<close> has made object \<open>0\<close>, which is live, a call with the same
  factory through specialisation \<open>1\<close> calls the factory again and returns the new object
  \<open>1\<close>, while object \<open>0\<close> still has its owner.
\<close>

theorem second_specialisation_second_instance:
  "fst (getOrCreate 0 fresh_factory (initial_process 0)) = Returns (Some 0)
   \<and> live 0 (snd (getOrCreate 0 fresh_factory (initial_process 0)))
   \<and> fst (getOrCreate 1 fresh_factory (snd (getOrCreate 0 fresh_factory (initial_process 0)))) =
       Returns (Some 1)
   \<and> factory_calls (snd (getOrCreate 1 fresh_factory (snd (getOrCreate 0 fresh_factory (initial_process 0))))) = 2
   \<and> use_count (snd (getOrCreate 1 fresh_factory (snd (getOrCreate 0 fresh_factory (initial_process 0))))) 0 = 1"
  by code_simp

text \<open>
  C9, amended: in a sequence of calls on one thread, each specialisation of \<open>getOrCreate\<close>
  keeps its own instance. A call through a specialisation that has a live instance returns a
  new handle to that instance without calling the factory (the state changes only by the one
  more owner). A call through a specialisation without a live instance calls the factory and
  ends as the factory did: with a handle to what the factory returned, or with its
  exception. That is the outcome of one factory call, or, when the call is the first through
  the specialisation and the factory returned an empty pointer, of a second factory call.
  What a call returns is what \<open>_weak\<close> observes afterwards, a call that returns a non-empty
  handle leaves a live instance, and no call touches the \<open>_weak\<close> of another specialisation.
\<close>

theorem getOrCreate_singleton:
  "(live k st \<longrightarrow>
      (\<exists>p. weak_target st k = Some p
         \<and> getOrCreate k factory st =
             (Returns (Some p), st\<lparr>use_count := (use_count st)(p := Suc (use_count st p))\<rparr>)))
   \<and> (\<not> live k st \<longrightarrow> factory_calls st < factory_calls (snd (getOrCreate k factory st)))
   \<and> (\<not> live k st \<and> (weak_initialised st k \<or> fst (factory (outside st)) \<noteq> Returns None) \<longrightarrow>
        fst (getOrCreate k factory st) = fst (factory (outside st))
        \<and> factory_calls (snd (getOrCreate k factory st)) = Suc (factory_calls st))
   \<and> (\<not> weak_initialised st k \<and> fst (factory (outside st)) = Returns None \<longrightarrow>
        fst (getOrCreate k factory st) = fst (factory (snd (factory (outside st))))
        \<and> factory_calls (snd (getOrCreate k factory st)) = Suc (Suc (factory_calls st)))
   \<and> (fst (getOrCreate k factory st) = Returns h \<longrightarrow>
        weak_target (snd (getOrCreate k factory st)) k = h
        \<and> (h \<noteq> None \<longrightarrow> live k (snd (getOrCreate k factory st))))
   \<and> (j \<noteq> k \<longrightarrow>
        weak_target (snd (getOrCreate k factory st)) j = weak_target st j
        \<and> weak_initialised (snd (getOrCreate k factory st)) j = weak_initialised st j)"
proof (cases "live k st")
  case True
  with live_getOrCreate [of k st factory] show ?thesis
    by (auto simp: live_def)
next
  case False
  show ?thesis
  proof (cases "weak_initialised st k")
    case True
    show ?thesis
    proof (cases "fst (factory (outside st))")
      case Throws
      with False True show ?thesis
        by (simp add: expired_getOrCreate_throws)
    next
      case (Returns r)
      with False True show ?thesis
        by (cases r) (auto simp: expired_getOrCreate_returns shared_ptr_adopt_def live_def)
    qed
  next
    case uninit: False
    show ?thesis
    proof (cases "fst (factory (outside st))")
      case Throws
      with False uninit show ?thesis
        by (simp add: first_getOrCreate_throws)
    next
      case (Returns r)
      show ?thesis
      proof (cases r)
        case (Some p)
        with False uninit Returns show ?thesis
          by (auto simp: first_getOrCreate_object live_def)
      next
        case None
        show ?thesis
        proof (cases "fst (factory (snd (factory (outside st))))")
          case Throws
          with False uninit Returns None show ?thesis
            by (simp add: first_getOrCreate_empty_throws)
        next
          case second: (Returns r')
          with False uninit Returns None show ?thesis
            by (cases r')
              (auto simp: first_getOrCreate_empty_returns shared_ptr_adopt_def live_def)
        qed
      qed
    qed
  qed
qed

theorem getOrCreate_singleton_witness:
  "\<not> live 0 (initial_process (0 :: nat))
   \<and> fst (getOrCreate 0 fresh_factory (initial_process 0)) = Returns (Some 0)
   \<and> factory_calls (snd (getOrCreate 0 fresh_factory (initial_process 0))) = 1
   \<and> live 0 (snd (getOrCreate 0 fresh_factory (initial_process 0)))
   \<and> \<not> weak_initialised (snd (getOrCreate 0 fresh_factory (initial_process 0))) 1
   \<and> fst (getOrCreate 0 fresh_factory (snd (getOrCreate 0 fresh_factory (initial_process 0)))) =
       Returns (Some 0)
   \<and> factory_calls (snd (getOrCreate 0 fresh_factory (snd (getOrCreate 0 fresh_factory (initial_process 0))))) = 1
   \<and> \<not> live 0 (drop_handle (Some 0) (snd (getOrCreate 0 fresh_factory (initial_process 0))))
   \<and> fst (getOrCreate 0 fresh_factory
           (drop_handle (Some 0) (snd (getOrCreate 0 fresh_factory (initial_process 0))))) =
       Returns (Some 1)
   \<and> factory_calls (snd (getOrCreate 0 fresh_factory
           (drop_handle (Some 0) (snd (getOrCreate 0 fresh_factory (initial_process 0)))))) = 2
   \<and> \<not> weak_initialised (initial_process ()) 0
   \<and> fst (empty_factory (outside (initial_process ()))) = Returns None
   \<and> fst (getOrCreate 0 empty_factory (initial_process ())) = Returns None
   \<and> factory_calls (snd (getOrCreate 0 empty_factory (initial_process ()))) = 2
   \<and> fst (getOrCreate 0 throwing_factory (initial_process ())) = Throws
   \<and> factory_calls (snd (getOrCreate 0 throwing_factory (initial_process ()))) = 1"
proof -
  let ?st0 = "initial_process (0 :: nat)"
  let ?st1 = "snd (getOrCreate 0 fresh_factory ?st0)"
  let ?st2 = "drop_handle (Some 0) ?st1"
  have init: "\<not> live 0 ?st0" "\<not> weak_initialised ?st0 0" "\<not> weak_initialised ?st0 1"
    "fst (fresh_factory (outside ?st0)) = Returns (Some 0)" "factory_calls ?st0 = 0"
    by (simp_all add: initial_process_def live_def fresh_factory_def)
  have unit: "\<not> live 0 (initial_process ())" "\<not> weak_initialised (initial_process ()) 0"
    "factory_calls (initial_process ()) = 0"
    by (simp_all add: initial_process_def live_def)
  have empty: "fst (empty_factory (outside (initial_process ()))) = Returns None"
    "fst (empty_factory (snd (empty_factory (outside (initial_process ()))))) = Returns None"
    by (simp_all add: empty_factory_def)
  have throwing: "fst (throwing_factory (outside (initial_process ()))) = Throws"
    by (simp add: throwing_factory_def)
  from init getOrCreate_singleton [where k = 0 and st = ?st0 and factory = fresh_factory
      and h = "Some 0" and j = 1]
  have first: "fst (getOrCreate 0 fresh_factory ?st0) = Returns (Some 0)" "factory_calls ?st1 = 1"
    "live 0 ?st1" "weak_target ?st1 0 = Some 0" "\<not> weak_initialised ?st1 1"
    by simp_all
  from first getOrCreate_singleton [where k = 0 and st = ?st1 and factory = fresh_factory
      and h = "Some 0" and j = 1]
  have second: "fst (getOrCreate 0 fresh_factory ?st1) = Returns (Some 0)"
    "factory_calls (snd (getOrCreate 0 fresh_factory ?st1)) = 1"
    by auto
  have dropped: "\<not> live 0 ?st2" "weak_initialised ?st2 0"
    "fst (fresh_factory (outside ?st2)) = Returns (Some 1)" "factory_calls ?st2 = 1"
    using init(2,4)
    by (simp_all add: first_getOrCreate_object drop_handle_def live_def)
      (simp_all add: initial_process_def fresh_factory_def)
  from dropped getOrCreate_singleton [where k = 0 and st = ?st2 and factory = fresh_factory
      and h = "Some 1" and j = 1]
  have third: "fst (getOrCreate 0 fresh_factory ?st2) = Returns (Some 1)"
    "factory_calls (snd (getOrCreate 0 fresh_factory ?st2)) = 2"
    by simp_all
  from unit empty getOrCreate_singleton [where k = 0 and st = "initial_process ()"
      and factory = empty_factory and h = None and j = 1]
  have fourth: "fst (getOrCreate 0 empty_factory (initial_process ())) = Returns None"
    "factory_calls (snd (getOrCreate 0 empty_factory (initial_process ()))) = 2"
    by simp_all
  from unit throwing getOrCreate_singleton [where k = 0 and st = "initial_process ()"
      and factory = throwing_factory and h = None and j = 1]
  have fifth: "fst (getOrCreate 0 throwing_factory (initial_process ())) = Throws"
    "factory_calls (snd (getOrCreate 0 throwing_factory (initial_process ()))) = 1"
    by simp_all
  from init first second dropped third unit empty fourth fifth show ?thesis by simp
qed

end
